theory Spec2Isabelle
  imports Main
begin

section \<open>JavaScript values reaching the server\<close>

text \<open>
  Tool arguments arrive as parsed JSON. A value of type \<open>json\<close> is such a parsed value;
  a possibly missing one (\<open>undefined\<close> in the source) is a \<open>json option\<close> with \<open>None\<close> for
  \<open>undefined\<close>. A number is modelled by its value when that is an integer; the model is
  exact for the safe integers (magnitude below \<open>2^53\<close>), which are the ones that print as
  plain decimal digits, and it has no number with a fraction. A string is a \<open>string\<close>: its
  characters are the code units below 256. An object is the list of its own members, with
  distinct keys, in the order in which the engine enumerates them.
\<close>

datatype json =
    JNull
  | JBool bool
  | JNum int
  | JStr string
  | JArr "json list"
  | JObj "(string \<times> json) list"

datatype js_type = TUndefined | TObject | TBoolean | TNumber | TString

text \<open>The \<open>typeof\<close> operator; \<open>typeof null\<close> and \<open>typeof []\<close> are both \<open>'object'\<close>.\<close>

fun typeof :: "json option \<Rightarrow> js_type" where
  "typeof None = TUndefined"
| "typeof (Some JNull) = TObject"
| "typeof (Some (JBool b)) = TBoolean"
| "typeof (Some (JNum n)) = TNumber"
| "typeof (Some (JStr s)) = TString"
| "typeof (Some (JArr xs)) = TObject"
| "typeof (Some (JObj kvs)) = TObject"

text \<open>
  Reading one of the properties \<open>name\<close>, \<open>path\<close>, \<open>port\<close>, \<open>description\<close>, \<open>envVars\<close>,
  \<open>serviceId\<close>, \<open>region\<close>, \<open>plan\<close> by destructuring. None of them is a property of an
  array or of \<open>Object.prototype\<close>, so only an object's own members can supply one.
\<close>

fun prop_of :: "json option \<Rightarrow> string \<Rightarrow> json option" where
  "prop_of (Some (JObj kvs)) k = map_of kvs k"
| "prop_of v k = None"

text \<open>
  A TypeScript cast \<open>x as string | undefined\<close> does nothing at run time. The model is
  typed, so the cast is a projection; the validators apply it only behind a \<open>typeof\<close>
  guard, where it loses nothing.
\<close>

fun as_string :: "json option \<Rightarrow> string option" where
  "as_string (Some (JStr s)) = Some s"
| "as_string v = None"

fun as_number :: "json option \<Rightarrow> int option" where
  "as_number (Some (JNum n)) = Some n"
| "as_number v = None"

text \<open>Truthiness of an optional string and of an optional number, and the \<open>||\<close> operator.\<close>

fun truthy_str :: "string option \<Rightarrow> bool" where
  "truthy_str None = False"
| "truthy_str (Some s) = (s \<noteq> [])"

fun truthy_num :: "int option \<Rightarrow> bool" where
  "truthy_num None = False"
| "truthy_num (Some n) = (n \<noteq> 0)"

definition or_opt :: "string option \<Rightarrow> string option \<Rightarrow> string option" where
  "or_opt a b = (if truthy_str a then a else b)"

definition or_str :: "string option \<Rightarrow> string \<Rightarrow> string" where
  "or_str a d = (case a of Some s \<Rightarrow> if s \<noteq> [] then s else d | None \<Rightarrow> d)"

definition or_num :: "int option \<Rightarrow> int \<Rightarrow> int" where
  "or_num a d = (case a of Some n \<Rightarrow> if n \<noteq> 0 then n else d | None \<Rightarrow> d)"

text \<open>
  Truthiness of a JSON value, for \<open>args.envVars || {}\<close>: an object or an array is always
  truthy.
\<close>

fun truthy :: "json \<Rightarrow> bool" where
  "truthy JNull = False"
| "truthy (JBool b) = b"
| "truthy (JNum n) = (n \<noteq> 0)"
| "truthy (JStr s) = (s \<noteq> [])"
| "truthy (JArr xs) = True"
| "truthy (JObj kvs) = True"

definition or_obj :: "json option \<Rightarrow> json \<Rightarrow> json" where
  "or_obj a d = (case a of Some v \<Rightarrow> if truthy v then v else d | None \<Rightarrow> d)"

section \<open>Protocol errors and validated arguments\<close>

datatype ErrorCode = InvalidParams | MethodNotFound

datatype McpError = McpError ErrorCode string

record CreateServiceArgs =
  cs_name :: string
  cs_path :: string
  cs_port :: "int option"
  cs_description :: "string option"

record GenerateRenderConfigArgs =
  rc_name :: string
  rc_path :: string
  rc_envVars :: "json option"
  rc_serviceId :: "string option"
  rc_region :: "string option"
  rc_plan :: "string option"

definition validateCreateServiceArgs :: "json option \<Rightarrow> McpError + CreateServiceArgs" where
  "validateCreateServiceArgs args =
    (if typeof args \<noteq> TObject \<or> args = Some JNull
     then Inl (McpError InvalidParams ''Arguments must be an object'')
     else
       let name = prop_of args ''name'';
           path = prop_of args ''path'';
           port = prop_of args ''port'';
           description = prop_of args ''description''
       in
       (case name of
          Some (JStr name') \<Rightarrow>
            (case path of
               Some (JStr path') \<Rightarrow>
                 Inr \<lparr> cs_name = name',
                       cs_path = path',
                       cs_port = (if typeof port = TNumber then as_number port else None),
                       cs_description =
                         (if typeof description = TString then as_string description else None) \<rparr>
             | _ \<Rightarrow> Inl (McpError InvalidParams ''path must be a string''))
        | _ \<Rightarrow> Inl (McpError InvalidParams ''name must be a string'')))"

definition validateGenerateRenderConfigArgs ::
  "json option \<Rightarrow> McpError + GenerateRenderConfigArgs" where
  "validateGenerateRenderConfigArgs args =
    (if typeof args \<noteq> TObject \<or> args = Some JNull
     then Inl (McpError InvalidParams ''Arguments must be an object'')
     else
       let name = prop_of args ''name'';
           path = prop_of args ''path'';
           envVars = prop_of args ''envVars'';
           serviceId = prop_of args ''serviceId'';
           region = prop_of args ''region'';
           plan = prop_of args ''plan''
       in
       (case name of
          Some (JStr name') \<Rightarrow>
            (case path of
               Some (JStr path') \<Rightarrow>
                 if envVars \<noteq> None \<and> (typeof envVars \<noteq> TObject \<or> envVars = Some JNull)
                 then Inl (McpError InvalidParams ''envVars must be an object if provided'')
                 else if serviceId \<noteq> None \<and> typeof serviceId \<noteq> TString
                 then Inl (McpError InvalidParams ''serviceId must be a string if provided'')
                 else if region \<noteq> None \<and> typeof region \<noteq> TString
                 then Inl (McpError InvalidParams ''region must be a string if provided'')
                 else if plan \<noteq> None \<and> typeof plan \<noteq> TString
                 then Inl (McpError InvalidParams ''plan must be a string if provided'')
                 else
                   Inr \<lparr> rc_name = name',
                         rc_path = path',
                         rc_envVars = envVars,
                         rc_serviceId = as_string serviceId,
                         rc_region = as_string region,
                         rc_plan = as_string plan \<rparr>
             | _ \<Rightarrow> Inl (McpError InvalidParams ''path must be a string''))
        | _ \<Rightarrow> Inl (McpError InvalidParams ''name must be a string'')))"

section \<open>Text produced by the runtime\<close>

subsection \<open>Numbers in template literals and in JSON\<close>

text \<open>
  \<open>Number::toString\<close> on an integer value: decimal digits, most significant first, with a
  leading minus sign for a negative value.
\<close>

definition digit_char :: "nat \<Rightarrow> char" where
  "digit_char d = ''0123456789'' ! d"

function nat_digits :: "nat \<Rightarrow> string" where
  "nat_digits n = (if n < 10 then [digit_char n] else nat_digits (n div 10) @ [digit_char (n mod 10)])"
  by pat_completeness auto
termination
  by (relation "measure id") auto

declare nat_digits.simps [simp del]

definition NumberToString :: "int \<Rightarrow> string" where
  "NumberToString n = (if n < 0 then CHR ''-'' # nat_digits (nat (- n)) else nat_digits (nat n))"

subsection \<open>\<open>JSON.stringify(value, null, 2)\<close>\<close>

text \<open>
  \<open>QuoteJSONString\<close>: the quotation mark and the reverse solidus are escaped, the control
  characters below U+0020 are written with their short escape or as a \<open>u\<close> escape with
  four lower-case hexadecimal digits, every other character stands for itself.
\<close>

definition hex_char :: "nat \<Rightarrow> char" where
  "hex_char d = ''0123456789abcdef'' ! d"

definition quote_char :: "char \<Rightarrow> string" where
  "quote_char c =
    (if c = CHR 0x08 then [CHR 0x5C, CHR ''b'']
     else if c = CHR 0x09 then [CHR 0x5C, CHR ''t'']
     else if c = CHR 0x0A then [CHR 0x5C, CHR ''n'']
     else if c = CHR 0x0C then [CHR 0x5C, CHR ''f'']
     else if c = CHR 0x0D then [CHR 0x5C, CHR ''r'']
     else if c = CHR 0x22 then [CHR 0x5C, CHR 0x22]
     else if c = CHR 0x5C then [CHR 0x5C, CHR 0x5C]
     else if (of_char c :: nat) < 32
       then [CHR 0x5C, CHR ''u'', CHR ''0'', CHR ''0'',
             hex_char (of_char c div 16), hex_char (of_char c mod 16)]
     else [c])"

definition QuoteJSONString :: "string \<Rightarrow> string" where
  "QuoteJSONString s = CHR 0x22 # concat (map quote_char s) @ [CHR 0x22]"

text \<open>\<open>Array.prototype.join\<close> on a list of strings.\<close>

fun join :: "string \<Rightarrow> string list \<Rightarrow> string" where
  "join sep [] = []"
| "join sep [x] = x"
| "join sep (x # y # ys) = x @ sep @ join sep (y # ys)"

text \<open>
  \<open>SerializeJSONProperty\<close> with the gap of two spaces that the third argument \<open>2\<close> selects;
  the first argument is the current indentation. An empty array or object is written
  without line breaks; otherwise every element or member stands on a line of its own, one
  gap deeper, and the closing bracket returns to the current indentation.
\<close>

definition gap :: string where
  "gap = ''  ''"

fun SerializeJSONProperty :: "string \<Rightarrow> json \<Rightarrow> string" where
  "SerializeJSONProperty indent JNull = ''null''"
| "SerializeJSONProperty indent (JBool b) = (if b then ''true'' else ''false'')"
| "SerializeJSONProperty indent (JNum n) = NumberToString n"
| "SerializeJSONProperty indent (JStr s) = QuoteJSONString s"
| "SerializeJSONProperty indent (JArr xs) =
    (if xs = [] then ''[]''
     else ''['' @ [CHR 0x0A] @ (indent @ gap)
          @ join ('','' @ [CHR 0x0A] @ (indent @ gap))
              (map (SerializeJSONProperty (indent @ gap)) xs)
          @ [CHR 0x0A] @ indent @ '']'')"
| "SerializeJSONProperty indent (JObj kvs) =
    (if kvs = [] then ''{}''
     else ''{'' @ [CHR 0x0A] @ (indent @ gap)
          @ join ('','' @ [CHR 0x0A] @ (indent @ gap))
              (map (\<lambda>kv. QuoteJSONString (fst kv) @ '': ''
                            @ SerializeJSONProperty (indent @ gap) (snd kv)) kvs)
          @ [CHR 0x0A] @ indent @ ''}'')"

definition JSON_stringify :: "json \<Rightarrow> string" where
  "JSON_stringify v = SerializeJSONProperty [] v"

subsection \<open>The \<open>path\<close> module (POSIX)\<close>

text \<open>
  \<open>split_at\<close> is \<open>String.prototype.split\<close> on a one-character separator.
  \<open>normalizeString\<close> walks the segments between slashes: empty segments and \<open>.\<close> are
  dropped, \<open>..\<close> removes the segment before it unless there is none or it is \<open>..\<close> itself,
  in which case it is kept only where the path may rise above its start.
\<close>

fun split_at :: "char \<Rightarrow> string \<Rightarrow> string list" where
  "split_at sep [] = [[]]"
| "split_at sep (c # cs) =
    (if c = sep then [] # split_at sep cs
     else (case split_at sep cs of seg # segs \<Rightarrow> (c # seg) # segs | [] \<Rightarrow> [[c]]))"

fun normalize_segments :: "bool \<Rightarrow> string list \<Rightarrow> string list \<Rightarrow> string list" where
  "normalize_segments allowAboveRoot res [] = res"
| "normalize_segments allowAboveRoot res (seg # segs) =
    (if seg = [] \<or> seg = ''.'' then normalize_segments allowAboveRoot res segs
     else if seg = ''..'' then
       (if res \<noteq> [] \<and> last res \<noteq> ''..''
        then normalize_segments allowAboveRoot (butlast res) segs
        else if allowAboveRoot then normalize_segments allowAboveRoot (res @ [''..'']) segs
        else normalize_segments allowAboveRoot res segs)
     else normalize_segments allowAboveRoot (res @ [seg]) segs)"

definition normalizeString :: "string \<Rightarrow> bool \<Rightarrow> string" where
  "normalizeString p allowAboveRoot = join ''/'' (normalize_segments allowAboveRoot [] (split_at CHR ''/'' p))"

definition isAbsolute :: "string \<Rightarrow> bool" where
  "isAbsolute p = (p \<noteq> [] \<and> hd p = CHR ''/'')"

definition path_normalize :: "string \<Rightarrow> string" where
  "path_normalize p =
    (if p = [] then ''.''
     else
       let trailingSeparator = (last p = CHR ''/'');
           q = normalizeString p (\<not> isAbsolute p)
       in
       if q = [] then (if isAbsolute p then ''/'' else if trailingSeparator then ''./'' else ''.'')
       else
         let q' = (if trailingSeparator then q @ ''/'' else q)
         in if isAbsolute p then ''/'' @ q' else q')"

text \<open>\<open>path.join(a, b)\<close>: the non-empty arguments joined by a slash, then normalised.\<close>

definition path_join :: "string \<Rightarrow> string \<Rightarrow> string" where
  "path_join a b =
    (let parts = filter (\<lambda>s. s \<noteq> []) [a, b]
     in if parts = [] then ''.'' else path_normalize (join ''/'' parts))"

text \<open>
  \<open>path.resolve(a, b)\<close>: the arguments are prepended from the right until the path is
  absolute, the working directory \<open>cwd\<close> (itself absolute) coming last; empty arguments are
  skipped.
\<close>

fun resolve_from :: "string list \<Rightarrow> string \<Rightarrow> string" where
  "resolve_from [] resolvedPath = resolvedPath"
| "resolve_from (p # ps) resolvedPath =
    (if p = [] then resolve_from ps resolvedPath
     else if isAbsolute p then p @ ''/'' @ resolvedPath
     else resolve_from ps (p @ ''/'' @ resolvedPath))"

definition path_resolve :: "string \<Rightarrow> string \<Rightarrow> string \<Rightarrow> string" where
  "path_resolve cwd a b =
    (let resolvedPath = resolve_from [b, a, cwd] [];
         q = normalizeString resolvedPath (\<not> isAbsolute resolvedPath)
     in if isAbsolute resolvedPath then ''/'' @ q
        else if q \<noteq> [] then q else ''.'')"

section \<open>The server\<close>

subsection \<open>Process-wide configuration\<close>

record RenderConfig =
  cfg_apiKey :: "string option"
  cfg_region :: "string option"

record DenoServiceServer =
  renderConfig :: RenderConfig

text \<open>
  The constructor reads \<open>process.env\<close>, a partial map from variable names to strings, once.
\<close>

definition DenoServiceServer_constructor :: "(string \<rightharpoonup> string) \<Rightarrow> DenoServiceServer" where
  "DenoServiceServer_constructor process_env =
    \<lparr> renderConfig =
        \<lparr> cfg_apiKey = process_env ''RENDER_API_KEY'',
          cfg_region = Some (or_str (process_env ''RENDER_REGION'') ''oregon'') \<rparr> \<rparr>"

subsection \<open>The file system as the handlers see it\<close>

text \<open>
  The handlers call \<open>fs.mkdir(path, {recursive})\<close> and \<open>fs.writeFile(path, data)\<close> and await
  each call. The file system is outside the program: it is a function that, given the calls
  made so far with their outcomes and the call now made, either lets the call succeed or
  makes it throw. What is thrown is an \<open>Error\<close> instance with its message or some other
  value; the \<open>catch\<close> blocks distinguish the two.
\<close>

datatype fs_op = Mkdir string bool | WriteFile string string

datatype thrown = ErrorInstance string | OtherThrown

type_synonym fs_event = "fs_op \<times> thrown option"

type_synonym file_system = "fs_event list \<Rightarrow> fs_op \<Rightarrow> thrown option"

text \<open>
  A sequence of awaited calls inside a \<open>try\<close> block: the first call that throws ends the
  sequence, and the calls after it are never made.
\<close>

fun fs_seq :: "file_system \<Rightarrow> fs_op list \<Rightarrow> fs_event list \<Rightarrow> thrown option \<times> fs_event list" where
  "fs_seq fsys [] tr = (None, tr)"
| "fs_seq fsys (call # calls) tr =
    (case fsys tr call of
       None \<Rightarrow> fs_seq fsys calls (tr @ [(call, None)])
     | Some e \<Rightarrow> (Some e, tr @ [(call, Some e)]))"

record ToolResult =
  content :: "string list"
  isError :: "bool option"

text \<open>\<open>error instanceof Error ? error.message : 'Unknown error occurred'\<close>\<close>

fun errorMessage :: "thrown \<Rightarrow> string" where
  "errorMessage (ErrorInstance msg) = msg"
| "errorMessage OtherThrown = ''Unknown error occurred''"

subsection \<open>\<open>create_deno_service\<close>\<close>

definition mainContent :: "CreateServiceArgs \<Rightarrow> string" where
  "mainContent args = join [CHR 0x0A]
    [''import { Application } from \"https://deno.land/x/oak/mod.ts\";'',
     '''',
     ''const app = new Application();'',
     ''const port = '' @ NumberToString (or_num (cs_port args) 8000) @ '';'',
     '''',
     ''// Logger middleware'',
     ''app.use(async (ctx, next) => {'',
     ''  await next();'',
     ''  const rt = ctx.response.headers.get(\"X-Response-Time\");'',
     ''  console.log(`${ctx.request.method} ${ctx.request.url} - ${rt}`);'',
     ''});'',
     '''',
     ''// Response time middleware'',
     ''app.use(async (ctx, next) => {'',
     ''  const start = Date.now();'',
     ''  await next();'',
     ''  const ms = Date.now() - start;'',
     ''  ctx.response.headers.set(\"X-Response-Time\", `${ms}ms`);'',
     ''});'',
     '''',
     ''// Routes'',
     ''app.use((ctx) => {'',
     ''  ctx.response.body = { message: \"Welcome to your Deno service!\" };'',
     ''});'',
     '''',
     ''console.log(`Server running on http://localhost:${port}`);'',
     ''await app.listen({ port });'']"

definition denoConfig :: json where
  "denoConfig =
    JObj [
      (''tasks'', JObj [
        (''start'', JStr ''deno run --allow-net main.ts''),
        (''dev'', JStr ''deno run --allow-net --watch main.ts''),
        (''test'', JStr ''deno test --allow-net'')]),
      (''fmt'', JObj [
        (''files'', JObj [(''include'', JArr [JStr ''**/*.ts''])]),
        (''options'', JObj [(''lineWidth'', JNum 100), (''indentWidth'', JNum 2)])]),
      (''lint'', JObj [
        (''files'', JObj [(''include'', JArr [JStr ''**/*.ts''])]),
        (''rules'', JObj [(''tags'', JArr [JStr ''recommended''])])])]"

definition readmeContent :: "CreateServiceArgs \<Rightarrow> string" where
  "readmeContent args =
    ''# '' @ cs_name args @ [CHR 0x0A]
    @ (case cs_description args of
         Some description \<Rightarrow>
           if description \<noteq> [] then [CHR 0x0A] @ description @ [CHR 0x0A] else []
       | None \<Rightarrow> [])
    @ [CHR 0x0A]
    @ join [CHR 0x0A]
       [''## Development'',
        '''',
        ''Start the development server:'',
        '''',
        ''```bash'',
        ''deno task dev'',
        ''```'',
        '''',
        ''Run tests:'',
        '''',
        ''```bash'',
        ''deno task test'',
        ''```'',
        '''',
        ''## Production'',
        '''',
        ''Start the production server:'',
        '''',
        ''```bash'',
        ''deno task start'',
        ''```'',
        '''',
        ''## API Documentation'',
        '''',
        ''- `GET /` - Welcome message'',
        '''']"

text \<open>
  The handler; \<open>cwd\<close> is the working directory of the process, against which
  \<open>path.resolve\<close> resolves a relative \<open>path\<close>.
\<close>

definition handleCreateService ::
  "string \<Rightarrow> file_system \<Rightarrow> CreateServiceArgs \<Rightarrow> fs_event list \<Rightarrow> ToolResult \<times> fs_event list" where
  "handleCreateService cwd fsys args tr =
    (let projectPath = path_resolve cwd (cs_path args) (cs_name args) in
     case fs_seq fsys
            [Mkdir projectPath True,
             WriteFile (path_join projectPath ''main.ts'') (mainContent args),
             WriteFile (path_join projectPath ''deno.json'') (JSON_stringify denoConfig),
             WriteFile (path_join projectPath ''README.md'') (readmeContent args)] tr of
       (None, tr') \<Rightarrow>
         (\<lparr> content = [''Successfully created Deno service at '' @ projectPath],
            isError = None \<rparr>, tr')
     | (Some e, tr') \<Rightarrow>
         (\<lparr> content = [''Failed to create service: '' @ errorMessage e],
            isError = Some True \<rparr>, tr'))"

subsection \<open>\<open>generate_render_config\<close>\<close>

text \<open>
  The values that the input schema of the tool lists for \<open>region\<close> and for \<open>plan\<close>; the
  second list is also the declared type of \<open>plan\<close>.
\<close>

definition region_enum :: "string list" where
  "region_enum = [''oregon'', ''ohio'', ''frankfurt'', ''singapore'']"

definition plan_enum :: "string list" where
  "plan_enum = [''free'', ''individual'', ''team'', ''business'']"

record RenderServiceConfig =
  svc_type :: string
  svc_name :: string
  svc_env :: string
  svc_region :: string
  svc_plan :: string
  svc_buildCommand :: unit
  svc_startCommand :: string
  svc_envVars :: json
  svc_id :: "string option"

text \<open>
  The \<open>service\<close> object of the handler: the object literal, then the assignment of \<open>id\<close>
  under \<open>if (args.serviceId)\<close>.
\<close>

definition build_service :: "DenoServiceServer \<Rightarrow> GenerateRenderConfigArgs \<Rightarrow> RenderServiceConfig" where
  "build_service this args =
    (let service =
           \<lparr> svc_type = ''web'',
             svc_name = rc_name args,
             svc_env = ''deno'',
             svc_region = or_str (or_opt (rc_region args) (cfg_region (renderConfig this))) ''oregon'',
             svc_plan = or_str (rc_plan args) ''free'',
             svc_buildCommand = (),
             svc_startCommand = ''deno run --allow-net main.ts'',
             svc_envVars = or_obj (rc_envVars args) (JObj []),
             svc_id = None \<rparr>
     in if truthy_str (rc_serviceId args) then service \<lparr> svc_id := rc_serviceId args \<rparr>
        else service)"

text \<open>
  The members of the \<open>service\<close> object in the order of their creation, as
  \<open>JSON.stringify\<close> visits them; \<open>id\<close> is a member only when it was assigned.
\<close>

definition service_json :: "RenderServiceConfig \<Rightarrow> json" where
  "service_json service =
    JObj ([(''type'', JStr (svc_type service)),
           (''name'', JStr (svc_name service)),
           (''env'', JStr (svc_env service)),
           (''region'', JStr (svc_region service)),
           (''plan'', JStr (svc_plan service)),
           (''buildCommand'', JNull),
           (''startCommand'', JStr (svc_startCommand service)),
           (''envVars'', svc_envVars service)]
          @ (case svc_id service of None \<Rightarrow> [] | Some i \<Rightarrow> [(''id'', JStr i)]))"

definition configMessage :: "DenoServiceServer \<Rightarrow> string" where
  "configMessage this =
    (if truthy_str (cfg_apiKey (renderConfig this))
     then ''Using global render.com configuration from MCP settings.''
     else ''Note: No global render.com API key found. You may need to configure this in your MCP settings.'')"

definition handleGenerateRenderConfig ::
  "DenoServiceServer \<Rightarrow> file_system \<Rightarrow> GenerateRenderConfigArgs \<Rightarrow> fs_event list
     \<Rightarrow> ToolResult \<times> fs_event list" where
  "handleGenerateRenderConfig this fsys args tr =
    (let service = build_service this args;
         renderConfigObject = JObj [(''services'', JArr [service_json service])];
         configPath = path_join (rc_path args) ''render.yaml''
     in
     case fs_seq fsys [WriteFile configPath (JSON_stringify renderConfigObject)] tr of
       (None, tr') \<Rightarrow>
         (\<lparr> content = [''Generated render.yaml configuration at '' @ configPath @ [CHR 0x0A]
                        @ configMessage this],
            isError = None \<rparr>, tr')
     | (Some e, tr') \<Rightarrow>
         (\<lparr> content = [''Failed to generate render config: '' @ errorMessage e],
            isError = Some True \<rparr>, tr'))"

subsection \<open>The \<open>CallToolRequest\<close> handler\<close>

text \<open>
  The argument of a handler is evaluated first, so a validator that throws leaves the
  handler uncalled and the error goes to the transport as it is.
\<close>

definition callTool ::
  "DenoServiceServer \<Rightarrow> string \<Rightarrow> file_system \<Rightarrow> string \<Rightarrow> json option \<Rightarrow> fs_event list
     \<Rightarrow> (McpError + ToolResult) \<times> fs_event list" where
  "callTool this cwd fsys name arguments tr =
    (if name = ''create_deno_service'' then
       (case validateCreateServiceArgs arguments of
          Inl err \<Rightarrow> (Inl err, tr)
        | Inr args \<Rightarrow> (case handleCreateService cwd fsys args tr of (r, tr') \<Rightarrow> (Inr r, tr')))
     else if name = ''generate_render_config'' then
       (case validateGenerateRenderConfigArgs arguments of
          Inl err \<Rightarrow> (Inl err, tr)
        | Inr args \<Rightarrow>
            (case handleGenerateRenderConfig this fsys args tr of (r, tr') \<Rightarrow> (Inr r, tr')))
     else (Inl (McpError MethodNotFound (''Unknown tool: '' @ name)), tr))"

section \<open>Sample environments\<close>

text \<open>
  Concrete surroundings on which the theorems below are instantiated: a file system on
  which every call succeeds, one that is mounted read-only, one that runs out of space, and
  process environments that set the API key or the region.
\<close>

definition fs_all_succeed :: file_system where
  "fs_all_succeed tr call = None"

fun fs_read_only :: file_system where
  "fs_read_only tr (Mkdir p r) = Some (ErrorInstance (''EROFS: read-only file system, mkdir '' @ p))"
| "fs_read_only tr (WriteFile p c) = Some (ErrorInstance (''EROFS: read-only file system, open '' @ p))"

text \<open>A disk that fills up: the first \<open>n\<close> calls return, every later one throws.\<close>

definition fs_full_after :: "nat \<Rightarrow> file_system" where
  "fs_full_after n tr call =
     (if length tr < n then None
      else Some (ErrorInstance ''ENOSPC: no space left on device, write''))"

definition env_empty :: "string \<rightharpoonup> string" where
  "env_empty = Map.empty"

definition env_api_key :: "string \<Rightarrow> string \<rightharpoonup> string" where
  "env_api_key k = [''RENDER_API_KEY'' \<mapsto> k]"

definition env_region :: "string \<Rightarrow> string \<rightharpoonup> string" where
  "env_region r = [''RENDER_REGION'' \<mapsto> r]"

section \<open>Reading JSON back\<close>



definition is_digit :: "char \<Rightarrow> bool" where
  "is_digit c = (c \<in> set ''0123456789'')"














section \<open>Properties of the validators\<close>

lemma typeof_TString_iff: "typeof v = TString \<longleftrightarrow> (\<exists>s. v = Some (JStr s))"
  by (cases v rule: typeof.cases) auto

lemma typeof_TUndefined_iff: "typeof v = TUndefined \<longleftrightarrow> v = None"
  by (cases v rule: typeof.cases) auto

lemma prop_of_Some_object: "prop_of arguments k = Some v \<Longrightarrow> \<exists>kvs. arguments = Some (JObj kvs)"
  by (cases "(arguments, k)" rule: prop_of.cases) auto

lemma validateCreateServiceArgs_rejects:
  assumes "typeof arguments \<noteq> TObject \<or> arguments = Some JNull
           \<or> typeof (prop_of arguments ''name'') \<noteq> TString
           \<or> typeof (prop_of arguments ''path'') \<noteq> TString"
  shows "\<exists>msg. validateCreateServiceArgs arguments = Inl (McpError InvalidParams msg)"
  using assms
  by (auto simp: validateCreateServiceArgs_def Let_def typeof_TString_iff
           split: option.splits json.splits)

lemma validateGenerateRenderConfigArgs_rejects:
  assumes "typeof arguments \<noteq> TObject \<or> arguments = Some JNull
           \<or> typeof (prop_of arguments ''name'') \<noteq> TString
           \<or> typeof (prop_of arguments ''path'') \<noteq> TString"
  shows "\<exists>msg. validateGenerateRenderConfigArgs arguments = Inl (McpError InvalidParams msg)"
  using assms
  by (auto simp: validateGenerateRenderConfigArgs_def Let_def typeof_TString_iff
           split: option.splits json.splits)

text \<open>
  Claim C4. Whenever the raw arguments of either tool are not an object, or \<open>name\<close> or
  \<open>path\<close> is missing or is not a string, the validator throws \<open>InvalidParams\<close>, the request
  handler passes that error on, and the record of file-system calls is the one it started
  with: the handler was never entered.
\<close>

theorem C4_missing_required_rejected_without_write:
  assumes "typeof arguments \<noteq> TObject \<or> arguments = Some JNull
           \<or> typeof (prop_of arguments ''name'') \<noteq> TString
           \<or> typeof (prop_of arguments ''path'') \<noteq> TString"
  shows "(\<exists>msg. validateCreateServiceArgs arguments = Inl (McpError InvalidParams msg)
            \<and> callTool this cwd fsys ''create_deno_service'' arguments tr
                = (Inl (McpError InvalidParams msg), tr))
       \<and> (\<exists>msg. validateGenerateRenderConfigArgs arguments = Inl (McpError InvalidParams msg)
            \<and> callTool this cwd fsys ''generate_render_config'' arguments tr
                = (Inl (McpError InvalidParams msg), tr))"
proof -
  obtain m1 where m1: "validateCreateServiceArgs arguments = Inl (McpError InvalidParams m1)"
    using validateCreateServiceArgs_rejects [OF assms] by blast
  obtain m2 where m2: "validateGenerateRenderConfigArgs arguments = Inl (McpError InvalidParams m2)"
    using validateGenerateRenderConfigArgs_rejects [OF assms] by blast
  show ?thesis
    using m1 m2 by (simp add: callTool_def)
qed

theorem C4_missing_required_rejected_without_write_witness:
  "callTool (DenoServiceServer_constructor env_empty) ''/home/u'' fs_all_succeed
      ''create_deno_service'' (Some (JObj [(''path'', JStr ''/tmp'')])) []
     = (Inl (McpError InvalidParams ''name must be a string''), [])
   \<and> callTool (DenoServiceServer_constructor env_empty) ''/home/u'' fs_all_succeed
      ''generate_render_config'' (Some (JObj [(''path'', JStr ''/tmp'')])) []
     = (Inl (McpError InvalidParams ''name must be a string''), [])"
  using C4_missing_required_rejected_without_write
    [of "Some (JObj [(''path'', JStr ''/tmp'')])" "DenoServiceServer_constructor env_empty"
        "''/home/u''" fs_all_succeed "[]"]
  by (simp add: validateCreateServiceArgs_def validateGenerateRenderConfigArgs_def)

text \<open>
  Claim C1 as stated fails for \<open>generate_render_config\<close>: a \<open>region\<close> that is a number makes
  its validator throw.
\<close>

theorem C1_counterexample_wrong_type_region_rejected:
  "validateGenerateRenderConfigArgs
     (Some (JObj [(''name'', JStr ''svc''), (''path'', JStr ''/tmp/svc''), (''region'', JNum 5)]))
   = Inl (McpError InvalidParams ''region must be a string if provided'')"
  by (simp add: validateGenerateRenderConfigArgs_def)

text \<open>
  Claim C1, amended. With \<open>name\<close> and \<open>path\<close> strings, \<open>create_deno_service\<close> validates
  whatever \<open>port\<close> and \<open>description\<close> are; a \<open>port\<close> that is not a number and a \<open>description\<close>
  that is not a string are dropped, and the dropped port later reads as the default 8000.
  \<open>generate_render_config\<close> is strict: an \<open>envVars\<close> that is present and not a non-null
  object, or a \<open>serviceId\<close>, \<open>region\<close> or \<open>plan\<close> that is present and not a string, is
  rejected with \<open>InvalidParams\<close>.
\<close>

theorem C1_wrong_type_optional_fields:
  assumes "prop_of arguments ''name'' = Some (JStr n)"
      and "prop_of arguments ''path'' = Some (JStr p)"
  shows "(\<exists>a. validateCreateServiceArgs arguments = Inr a
            \<and> cs_name a = n \<and> cs_path a = p
            \<and> (typeof (prop_of arguments ''port'') \<noteq> TNumber
                  \<longrightarrow> cs_port a = None \<and> or_num (cs_port a) 8000 = 8000)
            \<and> (typeof (prop_of arguments ''description'') \<noteq> TString
                  \<longrightarrow> cs_description a = None))
       \<and> (typeof (prop_of arguments ''envVars'') \<notin> {TUndefined, TObject}
            \<or> prop_of arguments ''envVars'' = Some JNull
            \<or> typeof (prop_of arguments ''serviceId'') \<notin> {TUndefined, TString}
            \<or> typeof (prop_of arguments ''region'') \<notin> {TUndefined, TString}
            \<or> typeof (prop_of arguments ''plan'') \<notin> {TUndefined, TString}
           \<longrightarrow> (\<exists>msg. validateGenerateRenderConfigArgs arguments
                         = Inl (McpError InvalidParams msg)))"
proof -
  obtain kvs where obj: "arguments = Some (JObj kvs)"
    using prop_of_Some_object [OF assms(1)] by blast
  have create: "\<exists>a. validateCreateServiceArgs arguments = Inr a
            \<and> cs_name a = n \<and> cs_path a = p
            \<and> (typeof (prop_of arguments ''port'') \<noteq> TNumber
                  \<longrightarrow> cs_port a = None \<and> or_num (cs_port a) 8000 = 8000)
            \<and> (typeof (prop_of arguments ''description'') \<noteq> TString
                  \<longrightarrow> cs_description a = None)"
    using assms obj by (simp add: validateCreateServiceArgs_def or_num_def Let_def)
  have generate: "typeof (prop_of arguments ''envVars'') \<notin> {TUndefined, TObject}
            \<or> prop_of arguments ''envVars'' = Some JNull
            \<or> typeof (prop_of arguments ''serviceId'') \<notin> {TUndefined, TString}
            \<or> typeof (prop_of arguments ''region'') \<notin> {TUndefined, TString}
            \<or> typeof (prop_of arguments ''plan'') \<notin> {TUndefined, TString}
           \<Longrightarrow> \<exists>msg. validateGenerateRenderConfigArgs arguments
                         = Inl (McpError InvalidParams msg)"
    using assms obj
    by (auto simp: validateGenerateRenderConfigArgs_def typeof_TUndefined_iff Let_def)
  from create generate show ?thesis by blast
qed

theorem C1_wrong_type_optional_fields_witness:
  "validateCreateServiceArgs
     (Some (JObj [(''name'', JStr ''svc''), (''path'', JStr ''/tmp''),
                  (''port'', JStr ''9000''), (''description'', JNum 7), (''plan'', JBool True)]))
     = Inr \<lparr> cs_name = ''svc'', cs_path = ''/tmp'', cs_port = None, cs_description = None \<rparr>
   \<and> validateGenerateRenderConfigArgs
     (Some (JObj [(''name'', JStr ''svc''), (''path'', JStr ''/tmp''),
                  (''port'', JStr ''9000''), (''description'', JNum 7), (''plan'', JBool True)]))
     = Inl (McpError InvalidParams ''plan must be a string if provided'')"
  using C1_wrong_type_optional_fields
    [of "Some (JObj [(''name'', JStr ''svc''), (''path'', JStr ''/tmp''),
                  (''port'', JStr ''9000''), (''description'', JNum 7), (''plan'', JBool True)])"
        "''svc''" "''/tmp''"]
  by (simp add: validateCreateServiceArgs_def validateGenerateRenderConfigArgs_def)

text \<open>
  Claim C7 on the code. The validator of \<open>generate_render_config\<close> checks only that
  \<open>region\<close> and \<open>plan\<close> are strings: the arguments \<open>region: "mars"\<close>, \<open>plan: "platinum"\<close>
  validate, and the descriptor carries both values, though neither is in the list that the
  input schema gives for it.
\<close>

theorem C7_enumerations_not_enforced:
  "validateGenerateRenderConfigArgs
     (Some (JObj [(''name'', JStr ''svc''), (''path'', JStr ''/tmp/svc''),
                  (''region'', JStr ''mars''), (''plan'', JStr ''platinum'')]))
   = Inr \<lparr> rc_name = ''svc'', rc_path = ''/tmp/svc'', rc_envVars = None, rc_serviceId = None,
           rc_region = Some ''mars'', rc_plan = Some ''platinum'' \<rparr>
   \<and> svc_region (build_service (DenoServiceServer_constructor env_empty)
        \<lparr> rc_name = ''svc'', rc_path = ''/tmp/svc'', rc_envVars = None, rc_serviceId = None,
          rc_region = Some ''mars'', rc_plan = Some ''platinum'' \<rparr>) = ''mars''
   \<and> svc_plan (build_service (DenoServiceServer_constructor env_empty)
        \<lparr> rc_name = ''svc'', rc_path = ''/tmp/svc'', rc_envVars = None, rc_serviceId = None,
          rc_region = Some ''mars'', rc_plan = Some ''platinum'' \<rparr>) = ''platinum''
   \<and> ''mars'' \<notin> set region_enum
   \<and> ''platinum'' \<notin> set plan_enum"
  by (simp add: validateGenerateRenderConfigArgs_def build_service_def or_str_def or_opt_def
        DenoServiceServer_constructor_def env_empty_def region_enum_def plan_enum_def)

theorem C7_enumerations_not_enforced_witness:
  "(case validateGenerateRenderConfigArgs
           (Some (JObj [(''name'', JStr ''svc''), (''path'', JStr ''/tmp/svc''),
                        (''region'', JStr ''mars''), (''plan'', JStr ''platinum'')])) of
      Inl err \<Rightarrow> False
    | Inr a \<Rightarrow> rc_region a = Some ''mars'' \<and> rc_plan a = Some ''platinum'')"
  using C7_enumerations_not_enforced by simp

section \<open>Properties of the handlers\<close>

subsection \<open>File-system calls and the service object\<close>

lemma fs_seq_events:
  "fs_seq fsys calls tr = (r, tr') \<Longrightarrow>
   \<exists>evs. tr' = tr @ evs \<and> map fst evs = take (length evs) calls
       \<and> (\<forall>e \<in> set (butlast evs). snd e = None)
       \<and> (case r of
            None \<Rightarrow> length evs = length calls \<and> (\<forall>e \<in> set evs. snd e = None)
          | Some x \<Rightarrow> evs \<noteq> [] \<and> snd (last evs) = Some x)"
proof (induction calls arbitrary: tr r tr')
  case Nil
  then show ?case by auto
next
  case (Cons call calls)
  show ?case
  proof (cases "fsys tr call")
    case None
    with Cons.prems have "fs_seq fsys calls (tr @ [(call, None)]) = (r, tr')" by simp
    from Cons.IH [OF this] obtain evs where evs:
      "tr' = (tr @ [(call, None)]) @ evs" "map fst evs = take (length evs) calls"
      "\<forall>e \<in> set (butlast evs). snd e = None"
      "(case r of
            None \<Rightarrow> length evs = length calls \<and> (\<forall>e \<in> set evs. snd e = None)
          | Some x \<Rightarrow> evs \<noteq> [] \<and> snd (last evs) = Some x)"
      by blast
    show ?thesis
      by (rule exI [of _ "(call, None) # evs"]) (use evs in \<open>auto split: option.splits\<close>)
  next
    case (Some e)
    with Cons.prems have "r = Some e" "tr' = tr @ [(call, Some e)]" by auto
    then show ?thesis
      by (intro exI [of _ "[(call, Some e)]"]) auto
  qed
qed

lemma handleGenerateRenderConfig_trace:
  "snd (handleGenerateRenderConfig this fsys a tr) =
     tr @ [(WriteFile (path_join (rc_path a) ''render.yaml'')
              (JSON_stringify (JObj [(''services'', JArr [service_json (build_service this a)])])),
            fsys tr (WriteFile (path_join (rc_path a) ''render.yaml'')
              (JSON_stringify (JObj [(''services'', JArr [service_json (build_service this a)])]))))]"
  by (simp add: handleGenerateRenderConfig_def Let_def split: option.splits)

lemma handleGenerateRenderConfig_eq:
  "handleGenerateRenderConfig this fsys a tr =
     (let w = WriteFile (path_join (rc_path a) ''render.yaml'')
                (JSON_stringify (JObj [(''services'', JArr [service_json (build_service this a)])]))
      in case fsys tr w of
           None \<Rightarrow> (\<lparr> content = [''Generated render.yaml configuration at ''
                                    @ path_join (rc_path a) ''render.yaml'' @ [CHR 0x0A]
                                    @ configMessage this],
                        isError = None \<rparr>, tr @ [(w, None)])
         | Some e \<Rightarrow> (\<lparr> content = [''Failed to generate render config: '' @ errorMessage e],
                         isError = Some True \<rparr>, tr @ [(w, Some e)]))"
  by (simp add: handleGenerateRenderConfig_def Let_def split: option.splits)

lemma handleCreateService_fs_seq:
  "handleCreateService cwd fsys args tr =
    (case fs_seq fsys
            [Mkdir (path_resolve cwd (cs_path args) (cs_name args)) True,
             WriteFile (path_join (path_resolve cwd (cs_path args) (cs_name args)) ''main.ts'')
               (mainContent args),
             WriteFile (path_join (path_resolve cwd (cs_path args) (cs_name args)) ''deno.json'')
               (JSON_stringify denoConfig),
             WriteFile (path_join (path_resolve cwd (cs_path args) (cs_name args)) ''README.md'')
               (readmeContent args)] tr of
       (None, tr') \<Rightarrow>
         (\<lparr> content = [''Successfully created Deno service at ''
                          @ path_resolve cwd (cs_path args) (cs_name args)],
            isError = None \<rparr>, tr')
     | (Some e, tr') \<Rightarrow>
         (\<lparr> content = [''Failed to create service: '' @ errorMessage e],
            isError = Some True \<rparr>, tr'))"
  by (simp only: handleCreateService_def Let_def)

lemma validateGenerateRenderConfigArgs_fields:
  assumes "validateGenerateRenderConfigArgs arguments = Inr a"
  shows "prop_of arguments ''name'' = Some (JStr (rc_name a))"
    and "prop_of arguments ''path'' = Some (JStr (rc_path a))"
    and "rc_envVars a = prop_of arguments ''envVars''"
    and "prop_of arguments ''serviceId'' = map_option JStr (rc_serviceId a)"
    and "prop_of arguments ''region'' = map_option JStr (rc_region a)"
    and "prop_of arguments ''plan'' = map_option JStr (rc_plan a)"
  using assms
  by (auto simp: validateGenerateRenderConfigArgs_def Let_def typeof_TString_iff
           split: if_splits option.splits json.splits)

lemma typeof_TObject_truthy: "typeof (Some v) = TObject \<Longrightarrow> v \<noteq> JNull \<Longrightarrow> truthy v"
  by (cases v) simp_all

lemma validateGenerateRenderConfigArgs_envVars:
  assumes "validateGenerateRenderConfigArgs arguments = Inr a"
  shows "or_obj (rc_envVars a) d
       = (case prop_of arguments ''envVars'' of Some e \<Rightarrow> e | None \<Rightarrow> d)"
  using assms
  by (auto simp: validateGenerateRenderConfigArgs_def Let_def or_obj_def typeof_TObject_truthy
           split: if_splits option.splits json.splits)

lemma build_service_region:
  "svc_region (build_service this a)
     = or_str (or_opt (rc_region a) (cfg_region (renderConfig this))) ''oregon''"
  by (simp add: build_service_def Let_def)

lemma build_service_plan: "svc_plan (build_service this a) = or_str (rc_plan a) ''free''"
  by (simp add: build_service_def Let_def)

lemma build_service_envVars: "svc_envVars (build_service this a) = or_obj (rc_envVars a) (JObj [])"
  by (simp add: build_service_def Let_def)

lemma build_service_id:
  "svc_id (build_service this a) = (if truthy_str (rc_serviceId a) then rc_serviceId a else None)"
  by (simp add: build_service_def Let_def)

lemma build_service_fixed:
  "svc_type (build_service this a) = ''web''"
  "svc_name (build_service this a) = rc_name a"
  "svc_env (build_service this a) = ''deno''"
  "svc_startCommand (build_service this a) = ''deno run --allow-net main.ts''"
  by (simp_all add: build_service_def Let_def)

subsection \<open>Region and plan of the descriptor\<close>

text \<open>
  Claim C2 as stated fails when the explicit argument is the empty string: \<open>region: ""\<close>
  and \<open>plan: ""\<close> validate, yet the descriptor takes the region of the process (here
  \<open>RENDER_REGION=ohio\<close>) and the plan \<open>free\<close>, because \<open>||\<close> passes over an empty string.
\<close>

theorem C2_counterexample_empty_region:
  "validateGenerateRenderConfigArgs
     (Some (JObj [(''name'', JStr ''svc''), (''path'', JStr ''/tmp/svc''),
                  (''region'', JStr ''''), (''plan'', JStr '''')]))
   = Inr \<lparr> rc_name = ''svc'', rc_path = ''/tmp/svc'', rc_envVars = None, rc_serviceId = None,
           rc_region = Some '''', rc_plan = Some '''' \<rparr>
   \<and> svc_region (build_service (DenoServiceServer_constructor (env_region ''ohio''))
        \<lparr> rc_name = ''svc'', rc_path = ''/tmp/svc'', rc_envVars = None, rc_serviceId = None,
          rc_region = Some '''', rc_plan = Some '''' \<rparr>) = ''ohio''
   \<and> svc_plan (build_service (DenoServiceServer_constructor (env_region ''ohio''))
        \<lparr> rc_name = ''svc'', rc_path = ''/tmp/svc'', rc_envVars = None, rc_serviceId = None,
          rc_region = Some '''', rc_plan = Some '''' \<rparr>) = ''free''"
  by (simp add: validateGenerateRenderConfigArgs_def build_service_def or_str_def or_opt_def
        DenoServiceServer_constructor_def env_region_def)

text \<open>
  Claim C2, amended. For validated arguments and a server constructed from the process
  environment \<open>penv\<close>: the descriptor's region is the explicit \<open>region\<close> when that is a
  non-empty string; otherwise the value of \<open>RENDER_REGION\<close> when that is set and non-empty;
  otherwise \<open>oregon\<close>. Its plan is the explicit \<open>plan\<close> when that is a non-empty
  string, otherwise \<open>free\<close>. Both are the \<open>region\<close> and \<open>plan\<close> members of the emitted
  service object.
\<close>

theorem C2_region_plan_precedence:
  fixes penv :: "string \<rightharpoonup> string"
  defines "service \<equiv> build_service (DenoServiceServer_constructor penv)"
  assumes "validateGenerateRenderConfigArgs arguments = Inr a"
  shows "(\<forall>r. prop_of arguments ''region'' = Some (JStr r) \<and> r \<noteq> []
              \<longrightarrow> svc_region (service a) = r)
       \<and> (prop_of arguments ''region'' \<in> {None, Some (JStr [])}
            \<longrightarrow> (\<forall>d. penv ''RENDER_REGION'' = Some d \<and> d \<noteq> [] \<longrightarrow> svc_region (service a) = d)
              \<and> (penv ''RENDER_REGION'' \<in> {None, Some []} \<longrightarrow> svc_region (service a) = ''oregon''))
       \<and> (\<forall>p. prop_of arguments ''plan'' = Some (JStr p) \<and> p \<noteq> []
              \<longrightarrow> svc_plan (service a) = p)
       \<and> (prop_of arguments ''plan'' \<in> {None, Some (JStr [])}
            \<longrightarrow> svc_plan (service a) = ''free'')
       \<and> prop_of (Some (service_json (service a))) ''region'' = Some (JStr (svc_region (service a)))
       \<and> prop_of (Some (service_json (service a))) ''plan'' = Some (JStr (svc_plan (service a)))"
proof -
  note f = validateGenerateRenderConfigArgs_fields [OF assms(2)]
  have region: "svc_region (service a)
      = or_str (rc_region a) (or_str (penv ''RENDER_REGION'') ''oregon'')"
    by (auto simp: service_def build_service_region DenoServiceServer_constructor_def or_str_def
          or_opt_def split: option.splits)
  have plan: "svc_plan (service a) = or_str (rc_plan a) ''free''"
    by (simp add: service_def build_service_plan)
  have r1: "\<forall>r. prop_of arguments ''region'' = Some (JStr r) \<and> r \<noteq> []
              \<longrightarrow> svc_region (service a) = r"
    using f(5) by (auto simp: region or_str_def)
  have r2: "prop_of arguments ''region'' \<in> {None, Some (JStr [])}
            \<longrightarrow> (\<forall>d. penv ''RENDER_REGION'' = Some d \<and> d \<noteq> [] \<longrightarrow> svc_region (service a) = d)
              \<and> (penv ''RENDER_REGION'' \<in> {None, Some []} \<longrightarrow> svc_region (service a) = ''oregon'')"
    using f(5) by (cases "rc_region a") (auto simp: region or_str_def)
  have p1: "\<forall>p. prop_of arguments ''plan'' = Some (JStr p) \<and> p \<noteq> []
              \<longrightarrow> svc_plan (service a) = p"
    using f(6) by (auto simp: plan or_str_def)
  have p2: "prop_of arguments ''plan'' \<in> {None, Some (JStr [])}
            \<longrightarrow> svc_plan (service a) = ''free''"
    using f(6) by (cases "rc_plan a") (auto simp: plan or_str_def)
  have j: "prop_of (Some (service_json (service a))) ''region'' = Some (JStr (svc_region (service a)))"
     "prop_of (Some (service_json (service a))) ''plan'' = Some (JStr (svc_plan (service a)))"
    by (simp_all add: service_json_def)
  from r1 r2 p1 p2 j show ?thesis by blast
qed

theorem C2_region_plan_precedence_witness:
  "svc_region (build_service (DenoServiceServer_constructor (env_region ''frankfurt''))
      \<lparr> rc_name = ''svc'', rc_path = ''/tmp/svc'', rc_envVars = None, rc_serviceId = None,
        rc_region = None, rc_plan = Some ''team'' \<rparr>) = ''frankfurt''
   \<and> svc_plan (build_service (DenoServiceServer_constructor (env_region ''frankfurt''))
      \<lparr> rc_name = ''svc'', rc_path = ''/tmp/svc'', rc_envVars = None, rc_serviceId = None,
        rc_region = None, rc_plan = Some ''team'' \<rparr>) = ''team''"
proof -
  have v: "validateGenerateRenderConfigArgs
     (Some (JObj [(''name'', JStr ''svc''), (''path'', JStr ''/tmp/svc''), (''plan'', JStr ''team'')]))
     = Inr \<lparr> rc_name = ''svc'', rc_path = ''/tmp/svc'', rc_envVars = None, rc_serviceId = None,
        rc_region = None, rc_plan = Some ''team'' \<rparr>"
    by (simp add: validateGenerateRenderConfigArgs_def)
  show ?thesis
    using C2_region_plan_precedence [OF v, of "env_region ''frankfurt''"]
    by (simp add: env_region_def)
qed

subsection \<open>The descriptor file\<close>

text \<open>
  Claim C3 as stated fails when \<open>serviceId\<close> is supplied as the empty string: it validates,
  and the service object has no \<open>id\<close> member, because the member is assigned under
  \<open>if (args.serviceId)\<close>.
\<close>

theorem C3_counterexample_empty_serviceId:
  "validateGenerateRenderConfigArgs
     (Some (JObj [(''name'', JStr ''svc''), (''path'', JStr ''/tmp/svc''), (''serviceId'', JStr '''')]))
   = Inr \<lparr> rc_name = ''svc'', rc_path = ''/tmp/svc'', rc_envVars = None,
           rc_serviceId = Some '''', rc_region = None, rc_plan = None \<rparr>
   \<and> prop_of (Some (service_json (build_service (DenoServiceServer_constructor env_empty)
        \<lparr> rc_name = ''svc'', rc_path = ''/tmp/svc'', rc_envVars = None,
          rc_serviceId = Some '''', rc_region = None, rc_plan = None \<rparr>))) ''id'' = None"
  by (simp add: validateGenerateRenderConfigArgs_def build_service_def service_json_def
        or_str_def or_opt_def or_obj_def DenoServiceServer_constructor_def env_empty_def)

text \<open>
  Claim C3, amended. For validated arguments the handler makes exactly one file-system
  call: it writes, to \<open>render.yaml\<close> joined to \<open>path\<close>, the \<open>JSON.stringify\<close> text of
  \<open>{services: [{type, name, env, region, plan, buildCommand: null, startCommand, envVars,
  id?}]}\<close> with the fixed values below, \<open>envVars\<close> the argument or \<open>{}\<close>, and the \<open>id\<close>
  member present exactly when \<open>serviceId\<close> was supplied as a non-empty string.
\<close>

theorem C3_descriptor_file:
  assumes "validateGenerateRenderConfigArgs arguments = Inr a"
  shows "\<exists>outcome.
     snd (handleGenerateRenderConfig this fsys a tr) =
       tr @ [(WriteFile (path_join (rc_path a) ''render.yaml'')
               (JSON_stringify
                 (JObj [(''services'', JArr [JObj
                   ([(''type'', JStr ''web''),
                     (''name'', JStr (rc_name a)),
                     (''env'', JStr ''deno''),
                     (''region'', JStr (svc_region (build_service this a))),
                     (''plan'', JStr (svc_plan (build_service this a))),
                     (''buildCommand'', JNull),
                     (''startCommand'', JStr ''deno run --allow-net main.ts''),
                     (''envVars'', (case prop_of arguments ''envVars'' of
                                     Some e \<Rightarrow> e | None \<Rightarrow> JObj []))]
                    @ (case prop_of arguments ''serviceId'' of
                         Some (JStr i) \<Rightarrow> if i \<noteq> [] then [(''id'', JStr i)] else []
                       | _ \<Rightarrow> []))])])),
              outcome)]"
proof -
  note f = validateGenerateRenderConfigArgs_fields [OF assms]
  have "service_json (build_service this a) =
      JObj ([(''type'', JStr ''web''),
             (''name'', JStr (rc_name a)),
             (''env'', JStr ''deno''),
             (''region'', JStr (svc_region (build_service this a))),
             (''plan'', JStr (svc_plan (build_service this a))),
             (''buildCommand'', JNull),
             (''startCommand'', JStr ''deno run --allow-net main.ts''),
             (''envVars'', (case prop_of arguments ''envVars'' of
                             Some e \<Rightarrow> e | None \<Rightarrow> JObj []))]
            @ (case prop_of arguments ''serviceId'' of
                 Some (JStr i) \<Rightarrow> if i \<noteq> [] then [(''id'', JStr i)] else []
               | _ \<Rightarrow> []))"
    using f(4)
    by (cases "rc_serviceId a")
       (simp_all add: service_json_def build_service_fixed build_service_envVars
          build_service_id validateGenerateRenderConfigArgs_envVars [OF assms])
  then show ?thesis
    using handleGenerateRenderConfig_trace [of this fsys a tr] by simp
qed

theorem C3_descriptor_file_witness:
  "snd (handleGenerateRenderConfig (DenoServiceServer_constructor env_empty) fs_all_succeed
         \<lparr> rc_name = ''svc'', rc_path = ''/tmp/svc'', rc_envVars = None,
           rc_serviceId = Some ''srv-123'', rc_region = None, rc_plan = None \<rparr> [])
   = [(WriteFile ''/tmp/svc/render.yaml''
         (JSON_stringify
           (JObj [(''services'', JArr [JObj
              [(''type'', JStr ''web''),
               (''name'', JStr ''svc''),
               (''env'', JStr ''deno''),
               (''region'', JStr ''oregon''),
               (''plan'', JStr ''free''),
               (''buildCommand'', JNull),
               (''startCommand'', JStr ''deno run --allow-net main.ts''),
               (''envVars'', JObj []),
               (''id'', JStr ''srv-123'')]])])),
       None)]"
proof -
  have v: "validateGenerateRenderConfigArgs
     (Some (JObj [(''name'', JStr ''svc''), (''path'', JStr ''/tmp/svc''),
                  (''serviceId'', JStr ''srv-123'')]))
     = Inr \<lparr> rc_name = ''svc'', rc_path = ''/tmp/svc'', rc_envVars = None,
           rc_serviceId = Some ''srv-123'', rc_region = None, rc_plan = None \<rparr>"
    by (simp add: validateGenerateRenderConfigArgs_def)
  have p: "path_join ''/tmp/svc'' ''render.yaml'' = ''/tmp/svc/render.yaml''"
    by (simp add: path_join_def path_normalize_def normalizeString_def isAbsolute_def)
  show ?thesis
    using C3_descriptor_file [OF v, of "DenoServiceServer_constructor env_empty" fs_all_succeed "[]"]
    by (simp add: p build_service_region build_service_plan or_str_def or_opt_def
          DenoServiceServer_constructor_def env_empty_def fs_all_succeed_def
          handleGenerateRenderConfig_trace)
qed

subsection \<open>Directory creation and the order of calls\<close>





subsection \<open>Failures at run time\<close>

text \<open>
  Claim C5. For a request whose arguments validate, the answers of the file system decide
  the outcome, and the outcome is always a result object. \<open>create_deno_service\<close> calls
  \<open>mkdir\<close> and then writes \<open>main.ts\<close>, \<open>deno.json\<close> and \<open>README.md\<close>, each call seeing the
  calls before it as having returned; the first of the four that throws ends the handler
  with the result \<open>isError: true\<close> and the text \<open>Failed to create service: \<close> followed by the
  message of the thrown \<open>Error\<close> (by \<open>Unknown error occurred\<close> for a thrown value that is
  not an \<open>Error\<close>), and no later call is made; if none throws the result is the success
  text without \<open>isError\<close>. \<open>generate_render_config\<close> makes its one write: if it throws,
  the result is \<open>isError: true\<close> with \<open>Failed to generate render config: \<close> and the
  message, otherwise the success text. A validation failure is raised as \<open>InvalidParams\<close>
  and an unknown tool name as \<open>MethodNotFound\<close>, both before any file-system call.
\<close>

theorem C5_runtime_failures_become_flagged_results:
  "(\<forall>a. validateCreateServiceArgs arguments = Inr a \<longrightarrow>
      (let projectPath = path_resolve cwd (cs_path a) (cs_name a);
           c1 = Mkdir projectPath True;
           c2 = WriteFile (path_join projectPath ''main.ts'') (mainContent a);
           c3 = WriteFile (path_join projectPath ''deno.json'') (JSON_stringify denoConfig);
           c4 = WriteFile (path_join projectPath ''README.md'') (readmeContent a);
           h1 = tr @ [(c1, None)];
           h2 = h1 @ [(c2, None)];
           h3 = h2 @ [(c3, None)];
           h4 = h3 @ [(c4, None)];
           failed = (\<lambda>e. Inr \<lparr> content = [''Failed to create service: ''
                         @ (case e of ErrorInstance msg \<Rightarrow> msg
                                    | OtherThrown \<Rightarrow> ''Unknown error occurred'')],
                       isError = Some True \<rparr>);
           run = callTool this cwd fsys ''create_deno_service'' arguments tr
       in (\<forall>e. fsys tr c1 = Some e \<longrightarrow> run = (failed e, tr @ [(c1, Some e)]))
        \<and> (\<forall>e. fsys tr c1 = None \<and> fsys h1 c2 = Some e \<longrightarrow> run = (failed e, h1 @ [(c2, Some e)]))
        \<and> (\<forall>e. fsys tr c1 = None \<and> fsys h1 c2 = None \<and> fsys h2 c3 = Some e
                \<longrightarrow> run = (failed e, h2 @ [(c3, Some e)]))
        \<and> (\<forall>e. fsys tr c1 = None \<and> fsys h1 c2 = None \<and> fsys h2 c3 = None \<and> fsys h3 c4 = Some e
                \<longrightarrow> run = (failed e, h3 @ [(c4, Some e)]))
        \<and> (fsys tr c1 = None \<and> fsys h1 c2 = None \<and> fsys h2 c3 = None \<and> fsys h3 c4 = None
                \<longrightarrow> run = (Inr \<lparr> content = [''Successfully created Deno service at '' @ projectPath],
                                 isError = None \<rparr>, h4))))
   \<and> (\<forall>a. validateGenerateRenderConfigArgs arguments = Inr a \<longrightarrow>
      (let configPath = path_join (rc_path a) ''render.yaml'';
           w = WriteFile configPath
                 (JSON_stringify (JObj [(''services'', JArr [service_json (build_service this a)])]));
           failed = (\<lambda>e. Inr \<lparr> content = [''Failed to generate render config: ''
                         @ (case e of ErrorInstance msg \<Rightarrow> msg
                                    | OtherThrown \<Rightarrow> ''Unknown error occurred'')],
                       isError = Some True \<rparr>);
           run = callTool this cwd fsys ''generate_render_config'' arguments tr
       in (\<forall>e. fsys tr w = Some e \<longrightarrow> run = (failed e, tr @ [(w, Some e)]))
        \<and> (fsys tr w = None
                \<longrightarrow> run = (Inr \<lparr> content = [''Generated render.yaml configuration at '' @ configPath
                                               @ [CHR 0x0A] @ configMessage this],
                                 isError = None \<rparr>, tr @ [(w, None)]))))
   \<and> (\<forall>err. validateCreateServiceArgs arguments = Inl err \<longrightarrow>
        (\<exists>msg. err = McpError InvalidParams msg)
        \<and> callTool this cwd fsys ''create_deno_service'' arguments tr = (Inl err, tr))
   \<and> (\<forall>err. validateGenerateRenderConfigArgs arguments = Inl err \<longrightarrow>
        (\<exists>msg. err = McpError InvalidParams msg)
        \<and> callTool this cwd fsys ''generate_render_config'' arguments tr = (Inl err, tr))
   \<and> (name \<noteq> ''create_deno_service'' \<and> name \<noteq> ''generate_render_config'' \<longrightarrow>
        callTool this cwd fsys name arguments tr
          = (Inl (McpError MethodNotFound (''Unknown tool: '' @ name)), tr))"
proof -
  have em: "errorMessage e = (case e of ErrorInstance msg \<Rightarrow> msg
                                    | OtherThrown \<Rightarrow> ''Unknown error occurred'')" for e
    by (cases e) simp_all
  have c: "\<forall>a. validateCreateServiceArgs arguments = Inr a \<longrightarrow>
      (let projectPath = path_resolve cwd (cs_path a) (cs_name a);
           c1 = Mkdir projectPath True;
           c2 = WriteFile (path_join projectPath ''main.ts'') (mainContent a);
           c3 = WriteFile (path_join projectPath ''deno.json'') (JSON_stringify denoConfig);
           c4 = WriteFile (path_join projectPath ''README.md'') (readmeContent a);
           h1 = tr @ [(c1, None)];
           h2 = h1 @ [(c2, None)];
           h3 = h2 @ [(c3, None)];
           h4 = h3 @ [(c4, None)];
           failed = (\<lambda>e. Inr \<lparr> content = [''Failed to create service: ''
                         @ (case e of ErrorInstance msg \<Rightarrow> msg
                                    | OtherThrown \<Rightarrow> ''Unknown error occurred'')],
                       isError = Some True \<rparr>);
           run = callTool this cwd fsys ''create_deno_service'' arguments tr
       in (\<forall>e. fsys tr c1 = Some e \<longrightarrow> run = (failed e, tr @ [(c1, Some e)]))
        \<and> (\<forall>e. fsys tr c1 = None \<and> fsys h1 c2 = Some e \<longrightarrow> run = (failed e, h1 @ [(c2, Some e)]))
        \<and> (\<forall>e. fsys tr c1 = None \<and> fsys h1 c2 = None \<and> fsys h2 c3 = Some e
                \<longrightarrow> run = (failed e, h2 @ [(c3, Some e)]))
        \<and> (\<forall>e. fsys tr c1 = None \<and> fsys h1 c2 = None \<and> fsys h2 c3 = None \<and> fsys h3 c4 = Some e
                \<longrightarrow> run = (failed e, h3 @ [(c4, Some e)]))
        \<and> (fsys tr c1 = None \<and> fsys h1 c2 = None \<and> fsys h2 c3 = None \<and> fsys h3 c4 = None
                \<longrightarrow> run = (Inr \<lparr> content = [''Successfully created Deno service at '' @ projectPath],
                                 isError = None \<rparr>, h4)))"
    unfolding Let_def
    by (simp add: callTool_def handleCreateService_fs_seq em)
  have g: "\<forall>a. validateGenerateRenderConfigArgs arguments = Inr a \<longrightarrow>
      (let configPath = path_join (rc_path a) ''render.yaml'';
           w = WriteFile configPath
                 (JSON_stringify (JObj [(''services'', JArr [service_json (build_service this a)])]));
           failed = (\<lambda>e. Inr \<lparr> content = [''Failed to generate render config: ''
                         @ (case e of ErrorInstance msg \<Rightarrow> msg
                                    | OtherThrown \<Rightarrow> ''Unknown error occurred'')],
                       isError = Some True \<rparr>);
           run = callTool this cwd fsys ''generate_render_config'' arguments tr
       in (\<forall>e. fsys tr w = Some e \<longrightarrow> run = (failed e, tr @ [(w, Some e)]))
        \<and> (fsys tr w = None
                \<longrightarrow> run = (Inr \<lparr> content = [''Generated render.yaml configuration at '' @ configPath
                                               @ [CHR 0x0A] @ configMessage this],
                                 isError = None \<rparr>, tr @ [(w, None)])))"
    unfolding Let_def
    by (simp add: callTool_def handleGenerateRenderConfig_eq em Let_def)
  have vc: "\<forall>err. validateCreateServiceArgs arguments = Inl err \<longrightarrow>
        (\<exists>msg. err = McpError InvalidParams msg)
        \<and> callTool this cwd fsys ''create_deno_service'' arguments tr = (Inl err, tr)"
    by (auto simp: callTool_def validateCreateServiceArgs_def Let_def
             split: if_splits option.splits json.splits)
  have vg: "\<forall>err. validateGenerateRenderConfigArgs arguments = Inl err \<longrightarrow>
        (\<exists>msg. err = McpError InvalidParams msg)
        \<and> callTool this cwd fsys ''generate_render_config'' arguments tr = (Inl err, tr)"
    by (auto simp: callTool_def validateGenerateRenderConfigArgs_def Let_def
             split: if_splits option.splits json.splits)
  have u: "name \<noteq> ''create_deno_service'' \<and> name \<noteq> ''generate_render_config'' \<longrightarrow>
        callTool this cwd fsys name arguments tr
          = (Inl (McpError MethodNotFound (''Unknown tool: '' @ name)), tr)"
    by (simp add: callTool_def)
  from c g vc vg u show ?thesis by blast
qed


theorem C5_runtime_failures_become_flagged_results_witness:
  "callTool (DenoServiceServer_constructor env_empty) ''/home/u'' (fs_full_after 2)
      ''create_deno_service''
      (Some (JObj [(''name'', JStr ''svc''), (''path'', JStr ''/tmp'')])) []
   = (Inr \<lparr> content = [''Failed to create service: ENOSPC: no space left on device, write''],
            isError = Some True \<rparr>,
      [(Mkdir ''/tmp/svc'' True, None),
       (WriteFile ''/tmp/svc/main.ts''
          (mainContent \<lparr> cs_name = ''svc'', cs_path = ''/tmp'', cs_port = None,
                          cs_description = None \<rparr>), None),
       (WriteFile ''/tmp/svc/deno.json'' (JSON_stringify denoConfig),
          Some (ErrorInstance ''ENOSPC: no space left on device, write''))])
   \<and> callTool (DenoServiceServer_constructor env_empty) ''/home/u'' fs_read_only
      ''generate_render_config''
      (Some (JObj [(''name'', JStr ''svc''), (''path'', JStr ''/tmp/svc'')])) []
   = (Inr \<lparr> content = [''Failed to generate render config: EROFS: read-only file system, open /tmp/svc/render.yaml''],
            isError = Some True \<rparr>,
      [(WriteFile ''/tmp/svc/render.yaml''
         (JSON_stringify
           (JObj [(''services'', JArr [JObj
              [(''type'', JStr ''web''),
               (''name'', JStr ''svc''),
               (''env'', JStr ''deno''),
               (''region'', JStr ''oregon''),
               (''plan'', JStr ''free''),
               (''buildCommand'', JNull),
               (''startCommand'', JStr ''deno run --allow-net main.ts''),
               (''envVars'', JObj [])]])])),
        Some (ErrorInstance ''EROFS: read-only file system, open /tmp/svc/render.yaml''))])"
proof -
  have p: "path_join ''/tmp/svc'' ''render.yaml'' = ''/tmp/svc/render.yaml''"
      "path_resolve ''/home/u'' ''/tmp'' ''svc'' = ''/tmp/svc''"
      "path_join ''/tmp/svc'' ''main.ts'' = ''/tmp/svc/main.ts''"
      "path_join ''/tmp/svc'' ''deno.json'' = ''/tmp/svc/deno.json''"
    by (simp_all add: path_join_def path_resolve_def path_normalize_def normalizeString_def
          isAbsolute_def)
  have vc: "validateCreateServiceArgs (Some (JObj [(''name'', JStr ''svc''), (''path'', JStr ''/tmp'')]))
      = Inr \<lparr> cs_name = ''svc'', cs_path = ''/tmp'', cs_port = None, cs_description = None \<rparr>"
    by (simp add: validateCreateServiceArgs_def Let_def)
  have vg: "validateGenerateRenderConfigArgs
        (Some (JObj [(''name'', JStr ''svc''), (''path'', JStr ''/tmp/svc'')]))
      = Inr \<lparr> rc_name = ''svc'', rc_path = ''/tmp/svc'', rc_envVars = None, rc_serviceId = None,
               rc_region = None, rc_plan = None \<rparr>"
    by (simp add: validateGenerateRenderConfigArgs_def Let_def)
  have s: "service_json (build_service (DenoServiceServer_constructor env_empty)
              \<lparr> rc_name = ''svc'', rc_path = ''/tmp/svc'', rc_envVars = None, rc_serviceId = None,
               rc_region = None, rc_plan = None \<rparr>)
       = JObj
              [(''type'', JStr ''web''),
               (''name'', JStr ''svc''),
               (''env'', JStr ''deno''),
               (''region'', JStr ''oregon''),
               (''plan'', JStr ''free''),
               (''buildCommand'', JNull),
               (''startCommand'', JStr ''deno run --allow-net main.ts''),
               (''envVars'', JObj [])]"
    by (simp add: service_json_def build_service_def Let_def
          or_str_def or_opt_def or_obj_def DenoServiceServer_constructor_def env_empty_def)
  show ?thesis
    using C5_runtime_failures_become_flagged_results
            [where arguments = "Some (JObj [(''name'', JStr ''svc''), (''path'', JStr ''/tmp'')])"
               and cwd = "''/home/u''" and tr = "[]" and fsys = "fs_full_after 2"
               and this = "DenoServiceServer_constructor env_empty"]
          C5_runtime_failures_become_flagged_results
            [where arguments = "Some (JObj [(''name'', JStr ''svc''), (''path'', JStr ''/tmp/svc'')])"
               and cwd = "''/home/u''" and tr = "[]" and fsys = fs_read_only
               and this = "DenoServiceServer_constructor env_empty"]
    by (simp add: vc vg s p Let_def fs_full_after_def)
qed

subsection \<open>The port in the entrypoint file\<close>

lemma digit_char_in: "d < 10 \<Longrightarrow> digit_char d \<in> set ''0123456789''"
  unfolding digit_char_def by (rule nth_mem) simp

lemma nat_digits_chars: "set (nat_digits n) \<subseteq> set ''0123456789''"
proof (induction n rule: nat_digits.induct)
  case (1 n)
  show ?case
  proof (cases "n < 10")
    case True
    then show ?thesis
      using digit_char_in [of n] by (subst nat_digits.simps) simp
  next
    case False
    then show ?thesis
      using 1 digit_char_in [of "n mod 10"] by (subst nat_digits.simps) simp
  qed
qed

lemma NumberToString_chars:
  assumes "c \<in> set (NumberToString n)"
  shows "c = CHR ''-'' \<or> c \<in> set ''0123456789''"
proof -
  from assms have "c = CHR ''-'' \<or> c \<in> set (nat_digits (nat (- n))) \<or> c \<in> set (nat_digits (nat n))"
    by (auto simp: NumberToString_def split: if_splits)
  then show ?thesis
    using nat_digits_chars by blast
qed

lemma NumberToString_no_newline: "CHR 0x0A \<notin> set (NumberToString n)"
  using NumberToString_chars [of "CHR 0x0A" n] by auto

lemma split_at_no_sep: "sep \<notin> set l \<Longrightarrow> split_at sep l = [l]"
  by (induction l) auto

lemma split_at_append_sep:
  "sep \<notin> set l \<Longrightarrow> split_at sep (l @ sep # rest) = l # split_at sep rest"
  by (induction l) auto

lemma split_at_join:
  "ls \<noteq> [] \<Longrightarrow> \<forall>l \<in> set ls. sep \<notin> set l \<Longrightarrow> split_at sep (join [sep] ls) = ls"
proof (induction "[sep]" ls rule: join.induct)
  case 1
  then show ?case by simp
next
  case (2 x)
  then show ?case by (simp add: split_at_no_sep)
next
  case (3 x y ys)
  then show ?case by (simp add: split_at_append_sep)
qed

lemma mainContent_port_line:
  "split_at (CHR 0x0A) (mainContent args) ! 3
     = ''const port = '' @ NumberToString (or_num (cs_port args) 8000) @ '';''"
  unfolding mainContent_def
  by (subst split_at_join) (simp_all add: NumberToString_no_newline)

lemma mainContent_shape:
  "mainContent args
       = (join [CHR 0x0A]
            [''import { Application } from \"https://deno.land/x/oak/mod.ts\";'',
             '''',
             ''const app = new Application();''] @ [CHR 0x0A])
          @ ''const port = ''
          @ NumberToString (case cs_port args of
                              Some n \<Rightarrow> if n \<noteq> 0 then n else 8000
                            | None \<Rightarrow> 8000)
          @ '';''
          @ ([CHR 0x0A] @ join [CHR 0x0A]
            ['''',
             ''// Logger middleware'',
             ''app.use(async (ctx, next) => {'',
             ''  await next();'',
             ''  const rt = ctx.response.headers.get(\"X-Response-Time\");'',
             ''  console.log(`${ctx.request.method} ${ctx.request.url} - ${rt}`);'',
             ''});'',
             '''',
             ''// Response time middleware'',
             ''app.use(async (ctx, next) => {'',
             ''  const start = Date.now();'',
             ''  await next();'',
             ''  const ms = Date.now() - start;'',
             ''  ctx.response.headers.set(\"X-Response-Time\", `${ms}ms`);'',
             ''});'',
             '''',
             ''// Routes'',
             ''app.use((ctx) => {'',
             ''  ctx.response.body = { message: \"Welcome to your Deno service!\" };'',
             ''});'',
             '''',
             ''console.log(`Server running on http://localhost:${port}`);'',
             ''await app.listen({ port });''])"
  by (simp add: mainContent_def or_num_def)

lemma handleCreateService_second_call:
  assumes "fsys tr (Mkdir (path_resolve cwd (cs_path args) (cs_name args)) True) = None"
  shows "fst (snd (handleCreateService cwd fsys args tr) ! Suc (length tr))
               = WriteFile (path_join (path_resolve cwd (cs_path args) (cs_name args)) ''main.ts'')
                   (mainContent args)"
proof -
  let ?P = "path_resolve cwd (cs_path args) (cs_name args)"
  let ?tr1 = "tr @ [(Mkdir ?P True, None)]"
  let ?w = "WriteFile (path_join ?P ''main.ts'') (mainContent args)"
  let ?rest = "[WriteFile (path_join ?P ''deno.json'') (JSON_stringify denoConfig),
                WriteFile (path_join ?P ''README.md'') (readmeContent args)]"
  show ?thesis
  proof (cases "fsys ?tr1 ?w")
    case (Some e)
    then show ?thesis
      using assms by (simp add: handleCreateService_fs_seq nth_append)
  next
    case None
    obtain r tr' where seq: "fs_seq fsys ?rest (?tr1 @ [(?w, None)]) = (r, tr')"
      by (cases "fs_seq fsys ?rest (?tr1 @ [(?w, None)])") blast
    from fs_seq_events [OF seq] obtain evs where "tr' = (?tr1 @ [(?w, None)]) @ evs"
      by blast
    then have "fst (tr' ! Suc (length tr)) = ?w"
      by (simp add: nth_append)
    moreover have "snd (handleCreateService cwd fsys args tr) = tr'"
      unfolding handleCreateService_fs_seq using assms None seq
      by (cases r) simp_all
    ultimately show ?thesis by simp
  qed
qed

text \<open>
  Claim C8 as stated fails for the port 0: it validates as a supplied port, and the fourth
  line of the generated \<open>main.ts\<close> binds 8000, because \<open>args.port || 8000\<close> passes over 0.
\<close>

theorem C8_counterexample_port_zero:
  "validateCreateServiceArgs
     (Some (JObj [(''name'', JStr ''svc''), (''path'', JStr ''/tmp''), (''port'', JNum 0)]))
   = Inr \<lparr> cs_name = ''svc'', cs_path = ''/tmp'', cs_port = Some 0, cs_description = None \<rparr>
   \<and> split_at (CHR 0x0A)
        (mainContent \<lparr> cs_name = ''svc'', cs_path = ''/tmp'', cs_port = Some 0,
                       cs_description = None \<rparr>) ! 3
     = ''const port = 8000;''"
  by (simp add: validateCreateServiceArgs_def mainContent_port_line or_num_def NumberToString_def
        nat_digits.simps digit_char_def)

text \<open>
  Claim C8, amended. The content of \<open>main.ts\<close> is one fixed text around the statement
  \<open>const port = N;\<close>, where \<open>N\<close> is the supplied port when it is not 0 and 8000 when the
  port is absent or 0; and once the directory is created, the handler's next call writes
  exactly this content to \<open>main.ts\<close> in the project directory.
\<close>

theorem C8_entrypoint_port:
  "(\<exists>before after. \<forall>args.
      mainContent args
        = before @ ''const port = ''
           @ NumberToString (case cs_port args of
                               Some n \<Rightarrow> if n \<noteq> 0 then n else 8000
                             | None \<Rightarrow> 8000)
           @ '';'' @ after)
   \<and> (fsys tr (Mkdir (path_resolve cwd (cs_path args) (cs_name args)) True) = None
        \<longrightarrow> fst (snd (handleCreateService cwd fsys args tr) ! Suc (length tr))
             = WriteFile (path_join (path_resolve cwd (cs_path args) (cs_name args)) ''main.ts'')
                 (mainContent args))"
  using mainContent_shape handleCreateService_second_call by blast

theorem C8_entrypoint_port_witness:
  "fst (snd (handleCreateService ''/home/u'' fs_all_succeed
          \<lparr> cs_name = ''svc'', cs_path = ''/tmp'', cs_port = Some 9000, cs_description = None \<rparr>
          []) ! 1)
    = WriteFile ''/tmp/svc/main.ts''
        (mainContent \<lparr> cs_name = ''svc'', cs_path = ''/tmp'', cs_port = Some 9000,
                       cs_description = None \<rparr>)
   \<and> split_at (CHR 0x0A)
        (mainContent \<lparr> cs_name = ''svc'', cs_path = ''/tmp'', cs_port = Some 9000,
                       cs_description = None \<rparr>) ! 3
     = ''const port = 9000;''"
proof -
  have p: "path_resolve ''/home/u'' ''/tmp'' ''svc'' = ''/tmp/svc''"
    by (simp add: path_resolve_def normalizeString_def isAbsolute_def)
  have j: "path_join ''/tmp/svc'' ''main.ts'' = ''/tmp/svc/main.ts''"
    by (simp add: path_join_def path_normalize_def normalizeString_def isAbsolute_def)
  have l: "split_at (CHR 0x0A)
        (mainContent \<lparr> cs_name = ''svc'', cs_path = ''/tmp'', cs_port = Some 9000,
                       cs_description = None \<rparr>) ! 3
     = ''const port = 9000;''"
    by (simp add: mainContent_port_line or_num_def NumberToString_def nat_digits.simps
          digit_char_def)
  show ?thesis
    using C8_entrypoint_port [of fs_all_succeed "[]" "''/home/u''"
        "\<lparr> cs_name = ''svc'', cs_path = ''/tmp'', cs_port = Some 9000, cs_description = None \<rparr>"]
    by (simp add: p j l fs_all_succeed_def)
qed

subsection \<open>The API key\<close>

lemma constructor_api_key_update:
  "DenoServiceServer_constructor (penv(''RENDER_API_KEY'' := k)) =
     \<lparr> renderConfig = \<lparr> cfg_apiKey = k,
                          cfg_region = Some (or_str (penv ''RENDER_REGION'') ''oregon'') \<rparr> \<rparr>"
  by (simp add: DenoServiceServer_constructor_def)

lemma build_service_ignores_api_key:
  "build_service (DenoServiceServer_constructor (penv(''RENDER_API_KEY'' := k))) a
     = build_service (DenoServiceServer_constructor penv) a"
  by (simp add: build_service_def DenoServiceServer_constructor_def)

lemma handleGenerateRenderConfig_cong:
  assumes "build_service this1 a = build_service this2 a"
      and "configMessage this1 = configMessage this2"
  shows "handleGenerateRenderConfig this1 fsys a tr = handleGenerateRenderConfig this2 fsys a tr"
  unfolding handleGenerateRenderConfig_def assms ..

lemma handleGenerateRenderConfig_trace_cong:
  assumes "build_service this1 a = build_service this2 a"
  shows "snd (handleGenerateRenderConfig this1 fsys a tr)
       = snd (handleGenerateRenderConfig this2 fsys a tr)"
  unfolding handleGenerateRenderConfig_trace assms ..

lemma handleGenerateRenderConfig_failure_cong:
  assumes "build_service this1 a = build_service this2 a"
      and "isError (fst (handleGenerateRenderConfig this1 fsys a tr)) = Some True"
  shows "handleGenerateRenderConfig this1 fsys a tr = handleGenerateRenderConfig this2 fsys a tr"
  using assms(2) unfolding handleGenerateRenderConfig_eq assms(1)
  by (simp add: Let_def split: option.splits)

lemma handleGenerateRenderConfig_success_text:
  assumes "isError (fst (handleGenerateRenderConfig this fsys a tr)) = None"
  shows "fst (handleGenerateRenderConfig this fsys a tr)
     = \<lparr> content = [(''Generated render.yaml configuration at ''
                        @ path_join (rc_path a) ''render.yaml'' @ [CHR 0x0A])
                      @ configMessage this],
         isError = None \<rparr>"
  using assms unfolding handleGenerateRenderConfig_eq
  by (simp add: Let_def split: option.splits)

lemma handleGenerateRenderConfig_isError_cong:
  assumes "build_service this1 a = build_service this2 a"
  shows "isError (fst (handleGenerateRenderConfig this1 fsys a tr))
       = isError (fst (handleGenerateRenderConfig this2 fsys a tr))"
  unfolding handleGenerateRenderConfig_eq assms
  by (simp add: Let_def split: option.splits)

text \<open>
  Claim C10 as stated fails for two runs that differ only in the value of the API key,
  when one of the values is the empty string: with \<open>RENDER_API_KEY\<close> set to \<open>""\<close> the
  response warns that no key was found, with any non-empty value it reports the global
  configuration.
\<close>

theorem C10_counterexample_empty_api_key:
  "fst (callTool (DenoServiceServer_constructor (env_api_key '''')) ''/home/u'' fs_all_succeed
         ''generate_render_config''
         (Some (JObj [(''name'', JStr ''svc''), (''path'', JStr ''/tmp/svc'')])) [])
   = Inr \<lparr> content = [''Generated render.yaml configuration at /tmp/svc/render.yaml'' @ [CHR 0x0A]
              @ ''Note: No global render.com API key found. You may need to configure this in your MCP settings.''],
           isError = None \<rparr>
   \<and> fst (callTool (DenoServiceServer_constructor (env_api_key ''rnd_k1'')) ''/home/u'' fs_all_succeed
         ''generate_render_config''
         (Some (JObj [(''name'', JStr ''svc''), (''path'', JStr ''/tmp/svc'')])) [])
   = Inr \<lparr> content = [''Generated render.yaml configuration at /tmp/svc/render.yaml'' @ [CHR 0x0A]
              @ ''Using global render.com configuration from MCP settings.''],
           isError = None \<rparr>"
proof -
  have p: "path_join ''/tmp/svc'' ''render.yaml'' = ''/tmp/svc/render.yaml''"
    by (simp add: path_join_def path_normalize_def normalizeString_def isAbsolute_def)
  show ?thesis
    by (simp add: callTool_def validateGenerateRenderConfigArgs_def handleGenerateRenderConfig_eq
          p configMessage_def DenoServiceServer_constructor_def env_api_key_def fs_all_succeed_def)
qed

text \<open>
  Claim C10, amended. Let two runs differ only in \<open>RENDER_API_KEY\<close> (unset, or set to any
  string). If the key is truthy (set and non-empty) in both or in neither, every response
  and every file-system call is identical. In any case the file-system calls are
  identical, every response of \<open>create_deno_service\<close> or to an unknown tool is identical, and
  so is every response flagged \<open>isError\<close>. A successful \<open>generate_render_config\<close> response
  is a text independent of the key followed by one of two fixed advisory lines, chosen by
  the truthiness of the key.
\<close>

theorem C10_api_key_only_by_truthiness:
  fixes penv :: "string \<rightharpoonup> string" and cwd fsys name arguments tr
  defines "run \<equiv> \<lambda>k. callTool (DenoServiceServer_constructor (penv(''RENDER_API_KEY'' := k)))
                          cwd fsys name arguments tr"
  shows "(truthy_str k1 = truthy_str k2 \<longrightarrow> run k1 = run k2)
       \<and> (name \<noteq> ''generate_render_config'' \<longrightarrow> run k1 = run k2)
       \<and> snd (run k1) = snd (run k2)
       \<and> (\<forall>r. fst (run k1) = Inr r \<and> isError r = Some True \<longrightarrow> run k2 = run k1)
       \<and> (\<forall>r. name = ''generate_render_config'' \<and> fst (run k1) = Inr r \<and> isError r = None \<longrightarrow>
             (\<exists>base. \<forall>k. fst (run k) =
                Inr \<lparr> content = [base @
                        (if truthy_str k
                         then ''Using global render.com configuration from MCP settings.''
                         else ''Note: No global render.com API key found. You may need to configure this in your MCP settings.'')],
                      isError = None \<rparr>))"
proof -
  let ?srv = "\<lambda>k. DenoServiceServer_constructor (penv(''RENDER_API_KEY'' := k))"
  have bs: "build_service (?srv k) a = build_service (?srv k') a" for k k' a
    by (simp add: build_service_ignores_api_key)
  have msg: "configMessage (?srv k) =
      (if truthy_str k
       then ''Using global render.com configuration from MCP settings.''
       else ''Note: No global render.com API key found. You may need to configure this in your MCP settings.'')"
    for k
    by (simp add: configMessage_def constructor_api_key_update)
  have create: "name \<noteq> ''generate_render_config'' \<Longrightarrow> run k = run k'" for k k'
    by (simp add: run_def callTool_def)
  have gen: "name = ''generate_render_config'' \<Longrightarrow> run k =
      (case validateGenerateRenderConfigArgs arguments of
         Inl err \<Rightarrow> (Inl err, tr)
       | Inr a \<Rightarrow> (Inr (fst (handleGenerateRenderConfig (?srv k) fsys a tr)),
                   snd (handleGenerateRenderConfig (?srv k) fsys a tr)))" for k
    by (simp add: run_def callTool_def split: sum.splits prod.splits)
  have same: "truthy_str k1 = truthy_str k2 \<longrightarrow> run k1 = run k2"
  proof (cases "name = ''generate_render_config''")
    case False
    then show ?thesis using create by blast
  next
    case True
    show ?thesis
    proof
      assume t: "truthy_str k1 = truthy_str k2"
      have "handleGenerateRenderConfig (?srv k1) fsys a tr
          = handleGenerateRenderConfig (?srv k2) fsys a tr" for a
        by (rule handleGenerateRenderConfig_cong [OF bs]) (simp add: msg t)
      then show "run k1 = run k2"
        by (simp add: gen [OF True] split: sum.splits)
    qed
  qed
  have trace: "snd (run k1) = snd (run k2)"
  proof (cases "name = ''generate_render_config''")
    case False
    then show ?thesis using create [of k1 k2] by simp
  next
    case True
    have "snd (handleGenerateRenderConfig (?srv k1) fsys a tr)
        = snd (handleGenerateRenderConfig (?srv k2) fsys a tr)" for a
      by (rule handleGenerateRenderConfig_trace_cong [OF bs])
    then show ?thesis
      by (simp add: gen [OF True] split: sum.splits)
  qed
  have failure: "\<forall>r. fst (run k1) = Inr r \<and> isError r = Some True \<longrightarrow> run k2 = run k1"
  proof (cases "name = ''generate_render_config''")
    case False
    then show ?thesis using create [of k2 k1] by simp
  next
    case True
    have "isError (fst (handleGenerateRenderConfig (?srv k1) fsys a tr)) = Some True
        \<Longrightarrow> handleGenerateRenderConfig (?srv k1) fsys a tr
          = handleGenerateRenderConfig (?srv k2) fsys a tr" for a
      by (rule handleGenerateRenderConfig_failure_cong [OF bs])
    then show ?thesis
      by (auto simp: gen [OF True] split: sum.splits)
  qed
  have success: "\<forall>r. name = ''generate_render_config'' \<and> fst (run k1) = Inr r \<and> isError r = None \<longrightarrow>
             (\<exists>base. \<forall>k. fst (run k) =
                Inr \<lparr> content = [base @
                        (if truthy_str k
                         then ''Using global render.com configuration from MCP settings.''
                         else ''Note: No global render.com API key found. You may need to configure this in your MCP settings.'')],
                      isError = None \<rparr>)"
  proof (intro allI impI, elim conjE)
    fix r
    assume n: "name = ''generate_render_config''"
      and r: "fst (run k1) = Inr r" and ok: "isError r = None"
    from r obtain a where a: "validateGenerateRenderConfigArgs arguments = Inr a"
      by (cases "validateGenerateRenderConfigArgs arguments") (auto simp: gen [OF n])
    have "isError (fst (handleGenerateRenderConfig (?srv k1) fsys a tr)) = None"
      using r ok by (simp add: gen [OF n] a)
    moreover have "isError (fst (handleGenerateRenderConfig (?srv k) fsys a tr))
        = isError (fst (handleGenerateRenderConfig (?srv k1) fsys a tr))" for k
      by (rule handleGenerateRenderConfig_isError_cong [OF bs])
    ultimately have "isError (fst (handleGenerateRenderConfig (?srv k) fsys a tr)) = None" for k
      by simp
    from handleGenerateRenderConfig_success_text [OF this]
    have "fst (run k) =
        Inr \<lparr> content = [(''Generated render.yaml configuration at ''
                        @ path_join (rc_path a) ''render.yaml'' @ [CHR 0x0A])
                      @ (if truthy_str k
                         then ''Using global render.com configuration from MCP settings.''
                         else ''Note: No global render.com API key found. You may need to configure this in your MCP settings.'')],
              isError = None \<rparr>" for k
      by (simp only: gen [OF n] a msg sum.case fst_conv)
    then show "\<exists>base. \<forall>k. fst (run k) =
                Inr \<lparr> content = [base @
                        (if truthy_str k
                         then ''Using global render.com configuration from MCP settings.''
                         else ''Note: No global render.com API key found. You may need to configure this in your MCP settings.'')],
                      isError = None \<rparr>"
      by blast
  qed
  from same create [of k1 k2] trace failure success show ?thesis by blast
qed

theorem C10_api_key_only_by_truthiness_witness:
  "callTool (DenoServiceServer_constructor (env_api_key ''rnd_k1'')) ''/home/u'' fs_all_succeed
      ''generate_render_config''
      (Some (JObj [(''name'', JStr ''svc''), (''path'', JStr ''/tmp/svc'')])) []
   = callTool (DenoServiceServer_constructor (env_api_key ''rnd_k2'')) ''/home/u'' fs_all_succeed
      ''generate_render_config''
      (Some (JObj [(''name'', JStr ''svc''), (''path'', JStr ''/tmp/svc'')])) []"
proof -
  have e: "env_empty(''RENDER_API_KEY'' := Some k) = env_api_key k" for k
    by (simp add: env_empty_def env_api_key_def)
  show ?thesis
    using C10_api_key_only_by_truthiness [of "Some ''rnd_k1''" "Some ''rnd_k2''" env_empty
        "''/home/u''" fs_all_succeed "''generate_render_config''"
        "Some (JObj [(''name'', JStr ''svc''), (''path'', JStr ''/tmp/svc'')])" "[]"]
    by (simp add: e)
qed

section \<open>Reading the written JSON back\<close>

subsection \<open>White space and numbers\<close>





lemma is_digit_digit_char: "d < 10 \<Longrightarrow> is_digit (digit_char d)"
  using digit_char_in by (simp add: is_digit_def)











subsection \<open>String literals\<close>






subsection \<open>Values\<close>

















subsection \<open>The two JSON files\<close>




end
